theory Spec2Isabelle
  imports Main
begin

section \<open>Python strings\<close>

text \<open>
  The runners of \<^verbatim>\<open>gui_test.py\<close> and \<^verbatim>\<open>gui_downloader.py\<close> use four string operations:
  \<^verbatim>\<open>str.strip()\<close>, \<^verbatim>\<open>str.startswith\<close>, \<^verbatim>\<open>str.lower()\<close> and the substring test \<^verbatim>\<open>in\<close>.
  A string is a list of characters; the model covers ASCII text (\<^verbatim>\<open>lower\<close> maps
  \<^verbatim>\<open>A-Z\<close> only, and the whitespace of \<^verbatim>\<open>strip\<close> is the ASCII whitespace of
  \<^verbatim>\<open>str.isspace\<close>).
\<close>

definition isspace :: "char \<Rightarrow> bool" where
  "isspace c = (of_char c \<in> {9, 10, 11, 12, 13, 28, 29, 30, 31, 32 :: nat})"

definition strip :: "string \<Rightarrow> string" where
  "strip s = rev (dropWhile isspace (rev (dropWhile isspace s)))"

definition startswith :: "string \<Rightarrow> string \<Rightarrow> bool" where
  "startswith s p = (take (length p) s = p)"

definition lower_char :: "char \<Rightarrow> char" where
  "lower_char c =
     (case map_of (zip ''ABCDEFGHIJKLMNOPQRSTUVWXYZ'' ''abcdefghijklmnopqrstuvwxyz'') c of
        Some l \<Rightarrow> l
      | None \<Rightarrow> c)"

definition lower :: "string \<Rightarrow> string" where
  "lower s = map lower_char s"

text \<open>\<open>contains sub s\<close> is Python's \<^verbatim>\<open>sub in s\<close>.\<close>

fun contains :: "string \<Rightarrow> string \<Rightarrow> bool" where
  "contains sub [] = (sub = [])"
| "contains sub (c # cs) = (startswith (c # cs) sub \<or> contains sub cs)"

section \<open>Paths\<close>

text \<open>
  \<^verbatim>\<open>str(Path(output_dir) / "{artist}/{album}/{title}.{output-ext}")\<close> on a POSIX system:
  both operands are split at \<^verbatim>\<open>/\<close>, empty and \<^verbatim>\<open>.\<close> components are dropped, the root
  of the left operand is kept (\<^verbatim>\<open>//\<close> when it starts with exactly two slashes), and the
  components are joined with \<^verbatim>\<open>/\<close>. The right operand is a relative path in every use.
\<close>

fun split_sep :: "string \<Rightarrow> string list" where
  "split_sep [] = [[]]"
| "split_sep (c # cs) =
     (if c = CHR ''/'' then [] # split_sep cs
      else (case split_sep cs of [] \<Rightarrow> [[c]] | p # ps \<Rightarrow> (c # p) # ps))"

definition path_parts :: "string \<Rightarrow> string list" where
  "path_parts p = filter (\<lambda>x. x \<noteq> [] \<and> x \<noteq> ''.'') (split_sep p)"

definition path_root :: "string \<Rightarrow> string" where
  "path_root p =
     (if startswith p ''///'' then ''/''
      else if startswith p ''//'' then ''//''
      else if startswith p ''/'' then ''/''
      else [])"

fun join_sep :: "string list \<Rightarrow> string" where
  "join_sep [] = []"
| "join_sep [p] = p"
| "join_sep (p # q # ps) = p @ ''/'' @ join_sep (q # ps)"

definition Path_div :: "string \<Rightarrow> string \<Rightarrow> string" where
  "Path_div dir rel =
     (let parts = path_parts dir @ path_parts rel in
      if path_root dir = [] \<and> parts = [] then ''.''
      else path_root dir @ join_sep parts)"

section \<open>Signals, the downloader and the observable trace\<close>

text \<open>
  Python exceptions that occur in the runners. All of them are subclasses of
  \<^verbatim>\<open>Exception\<close>, which is what the handlers \<^verbatim>\<open>except Exception\<close> catch.
  \<open>DownloaderError m\<close> is an exception raised by the external downloader, with
  \<^verbatim>\<open>str(e) = m\<close>.
\<close>

datatype exn = AttributeError | TypeError | UnboundLocalError | DownloaderError string

text \<open>
  The messages of the two files, with the values interpolated into them:
  \<^item> \<open>Processing i total_urls url\<close>: \<^verbatim>\<open>f"Processing {i}/{total}: {url}"\<close>
  \<^item> \<open>Attempt a n\<close>: \<^verbatim>\<open>f"  Attempt {attempt}/{self.max_retries}"\<close>,
    \<^verbatim>\<open>f"Download Attempt {attempt}/{MAX_RETRIES}"\<close>
  \<^item> \<open>Downloaded\<close>: the success message of each runner
  \<^item> \<open>Non_retryable\<close>: \<^verbatim>\<open>"Non-retryable error"\<close> (gui_test.py, batch)
  \<^item> \<open>Metadata_error\<close>, \<open>Lookup_error\<close>: \<^verbatim>\<open>"Error: Metadata TypeError"\<close>,
    \<^verbatim>\<open>"Error: Lookup Error"\<close> / \<^verbatim>\<open>"Error: No results found"\<close>
  \<^item> \<open>Failed_after n\<close>: \<^verbatim>\<open>f"Failed after {n} attempts"\<close>
  \<^item> \<open>Exception_text e\<close>: \<^verbatim>\<open>f"Exception: {str(e)}"\<close>, \<^verbatim>\<open>f"Error: {str(e)}"\<close>
  \<^item> \<open>Read_error m\<close>: \<^verbatim>\<open>f"Error reading file: {str(e)}"\<close>,
    \<^verbatim>\<open>f"Couldn't read the file: {(str(e))}"\<close>
  \<^item> \<open>No_urls\<close>: \<^verbatim>\<open>"No URLs found in file"\<close>, \<^verbatim>\<open>"No URLs in the file"\<close>
  \<^item> \<open>Starting url\<close>: \<^verbatim>\<open>f"Starting download...\nURL: {self.url}"\<close>
  \<^item> \<open>Use_batch_tab\<close>: the two messages of the \<^verbatim>\<open>"file"\<close> branch
  \<^item> \<open>Download_failed\<close>: \<^verbatim>\<open>"Download failed"\<close>
  \<^item> \<open>Str_of e\<close>: \<^verbatim>\<open>str(e)\<close>
\<close>

datatype message =
    Processing nat nat string
  | Attempt nat nat
  | Downloaded
  | Non_retryable
  | Metadata_error
  | Lookup_error
  | Failed_after nat
  | Exception_text exn
  | Read_error string
  | No_urls
  | Starting string
  | Use_batch_tab
  | Download_failed
  | Str_of exn

text \<open>Arguments of \<^verbatim>\<open>emit\<close>: a literal string, a formatted message, an int, a bool.\<close>

datatype pyval = PyStr string | PyMsg message | PyInt int | PyBool bool

datatype pytype = T_str | T_int | T_bool

datatype signal = update_signal | progress_signal | finished_signal

text \<open>
  One invocation \<^verbatim>\<open>run_download(url, output_template, additional_args)\<close>;
  \<open>None\<close> is both \<^verbatim>\<open>None\<close> and the omitted third argument.
\<close>

type_synonym invocation = "string \<times> string \<times> string list option"

text \<open>
  What one invocation of the external downloader does: it returns an object with a
  \<^verbatim>\<open>returncode\<close>, returns an object without one, or raises. The returncode is an
  integer (the runners compare it with 0, 100 and 101 only). What is raised is an
  instance of \<^verbatim>\<open>Exception\<close>, with \<^verbatim>\<open>str(e)\<close> the given string. An invocation that
  never returns is not a response: no runner puts a timeout around the call.
\<close>

datatype response = Returncode int | NoReturncode | Raises string

text \<open>
  The downloader is an external collaborator: any function from the invocations made
  so far and the present one to a response.
\<close>

type_synonym downloader = "invocation list \<Rightarrow> invocation \<Rightarrow> response"

text \<open>
  What a run does, in order: it configures the downloader
  (\<^verbatim>\<open>_Downloader__bitrate\<close>, \<^verbatim>\<open>_Downloader__audio_format\<close>, \<^verbatim>\<open>_Downloader__output_dir\<close>),
  emits signals, sleeps and invokes the downloader.
\<close>

datatype action =
    Configure string string string
  | Emit signal "pyval list"
  | Sleep nat
  | Run_download invocation

record state =
  trace :: "action list"
  success_count :: nat

datatype 'a outcome = Return 'a state | Raise exn state

definition ret :: "'a \<Rightarrow> state \<Rightarrow> 'a outcome" where
  "ret x s = Return x s"

definition raise :: "exn \<Rightarrow> state \<Rightarrow> 'a outcome" where
  "raise e s = Raise e s"

definition and_then :: "(state \<Rightarrow> 'a outcome) \<Rightarrow> ('a \<Rightarrow> state \<Rightarrow> 'b outcome) \<Rightarrow> state \<Rightarrow> 'b outcome" where
  "and_then m f s = (case m s of Return x s' \<Rightarrow> f x s' | Raise e s' \<Rightarrow> Raise e s')"

text \<open>\<^verbatim>\<open>try: body except Exception as e: handler\<close>\<close>

definition try_except :: "(state \<Rightarrow> 'a outcome) \<Rightarrow> (exn \<Rightarrow> state \<Rightarrow> 'a outcome) \<Rightarrow> state \<Rightarrow> 'a outcome" where
  "try_except body handler s = (case body s of Return x s' \<Rightarrow> Return x s' | Raise e s' \<Rightarrow> handler e s')"

definition record_action :: "action \<Rightarrow> state \<Rightarrow> state" where
  "record_action a s = s\<lparr>trace := trace s @ [a]\<rparr>"

text \<open>
  PyQt5 checks the arguments of \<^verbatim>\<open>emit\<close> against the signature the signal was
  declared with (\<^verbatim>\<open>pyqtSignal(str, str)\<close>): another number of arguments, or an
  argument that does not convert to the declared type, raises \<^verbatim>\<open>TypeError\<close> and
  nothing is emitted. A \<^verbatim>\<open>bool\<close> is an \<^verbatim>\<open>int\<close>.
\<close>

fun converts :: "pytype \<Rightarrow> pyval \<Rightarrow> bool" where
  "converts T_str (PyStr _) = True"
| "converts T_str (PyMsg _) = True"
| "converts T_int (PyInt _) = True"
| "converts T_int (PyBool _) = True"
| "converts T_bool (PyBool _) = True"
| "converts T_bool (PyInt _) = True"
| "converts _ _ = False"

definition emit :: "signal \<times> pytype list \<Rightarrow> pyval list \<Rightarrow> state \<Rightarrow> unit outcome" where
  "emit sg args s =
     (if length args = length (snd sg) \<and> list_all2 converts (snd sg) args
      then Return () (record_action (Emit (fst sg) args) s)
      else Raise TypeError s)"

definition sleep :: "nat \<Rightarrow> state \<Rightarrow> unit outcome" where
  "sleep n s = Return () (record_action (Sleep n) s)"

fun invocations :: "action list \<Rightarrow> invocation list" where
  "invocations [] = []"
| "invocations (Run_download c # as) = c # invocations as"
| "invocations (_ # as) = invocations as"

text \<open>
  \<^verbatim>\<open>result = self.downloader.run_download(...)\<close>: the value is \<open>Some rc\<close> when
  \<^verbatim>\<open>hasattr(result, 'returncode')\<close> and \<open>None\<close> when not.
\<close>

definition run_download :: "downloader \<Rightarrow> invocation \<Rightarrow> state \<Rightarrow> int option outcome" where
  "run_download dl c s =
     (let s' = record_action (Run_download c) s in
      case dl (invocations (trace s)) c of
        Returncode rc \<Rightarrow> Return (Some rc) s'
      | NoReturncode \<Rightarrow> Return None s'
      | Raises m \<Rightarrow> Raise (DownloaderError m) s')"

definition configure :: "string \<Rightarrow> string \<Rightarrow> string \<Rightarrow> state \<Rightarrow> unit outcome" where
  "configure bitrate audio_format output_dir s =
     Return () (record_action (Configure bitrate audio_format output_dir) s)"

definition incr_success :: "state \<Rightarrow> unit outcome" where
  "incr_success s = Return () (s\<lparr>success_count := success_count s + 1\<rparr>)"

text \<open>
  A \<^verbatim>\<open>for\<close> loop whose body may \<^verbatim>\<open>break\<close>: the body says how the pass ended.
\<close>

datatype ctl = Break | Next

fun for_loop :: "('a \<Rightarrow> state \<Rightarrow> ctl outcome) \<Rightarrow> 'a list \<Rightarrow> state \<Rightarrow> unit outcome" where
  "for_loop body [] s = Return () s"
| "for_loop body (x # xs) s =
     (case body x s of
        Raise e s' \<Rightarrow> Raise e s'
      | Return Break s' \<Rightarrow> Return () s'
      | Return Next s' \<Rightarrow> for_loop body xs s')"

section \<open>The batch input file\<close>

text \<open>
  \<^verbatim>\<open>urls = [line.strip() for line in file if line.strip() and not line.strip().startswith('#')]\<close>
\<close>

definition is_job_line :: "string \<Rightarrow> bool" where
  "is_job_line line = (strip line \<noteq> [] \<and> \<not> startswith (strip line) ''#'')"

definition parse_urls :: "string list \<Rightarrow> string list" where
  "parse_urls lines = map strip (filter is_job_line lines)"

text \<open>
  The constructor arguments of both \<^verbatim>\<open>BatchDownloadThread\<close> classes (the downloader
  and the file apart). The two retry settings are unsigned: the spin boxes of the GUI
  give 1 to 10 retries and 1 to 60 seconds.
\<close>

record settings =
  output_dir :: string
  bitrate :: string
  audio_format :: string
  max_retries :: nat
  retry_delay :: nat

text \<open>Reading the file gives its lines, or raises (\<open>Inl\<close>, with \<^verbatim>\<open>str(e)\<close>).\<close>

type_synonym file_read = "string + string list"

definition initial :: state where
  "initial = \<lparr>trace = [], success_count = 0\<rparr>"

definition batch_update_signal :: "signal \<times> pytype list" where
  "batch_update_signal = (update_signal, [T_str, T_str])"

definition batch_progress_signal :: "signal \<times> pytype list" where
  "batch_progress_signal = (progress_signal, [T_int, T_int])"

definition batch_finished_signal :: "signal \<times> pytype list" where
  "batch_finished_signal = (finished_signal, [T_int, T_int])"

section \<open>gui\_test.py: BatchDownloadThread.run\<close>

text \<open>Lines 140-148: the template and the extra arguments of one URL.\<close>

definition gui_test_template :: "string \<Rightarrow> string \<Rightarrow> string \<times> string list option" where
  "gui_test_template dir url =
     (if contains ''playlist'' (lower url) then
        (Path_div dir ''{playlist}/{title}.{output-ext}'',
         Some [''--playlist-numbering'', ''--playlist-retain-track-cover''])
      else if contains ''album'' (lower url) then
        (Path_div dir ''{artist}/{album}/{title}.{output-ext}'', None)
      else
        (Path_div dir ''{artist} - {title}.{output-ext}'', None))"

text \<open>Lines 166-169: after a result that is neither a success nor a classified failure.\<close>

definition gui_test_unknown :: "settings \<Rightarrow> nat \<Rightarrow> state \<Rightarrow> ctl outcome" where
  "gui_test_unknown st attempt =
     (if attempt < max_retries st then
        and_then (sleep (retry_delay st)) (\<lambda>_. ret Next)
      else
        and_then (emit batch_update_signal [PyMsg (Failed_after (max_retries st)), PyStr ''error''])
          (\<lambda>_. ret Next))"

text \<open>Lines 152-175: one pass of the retry loop.\<close>

definition gui_test_attempt :: "downloader \<Rightarrow> settings \<Rightarrow> invocation \<Rightarrow> nat \<Rightarrow> state \<Rightarrow> ctl outcome" where
  "gui_test_attempt dl st c attempt =
     and_then (emit batch_update_signal [PyMsg (Attempt attempt (max_retries st)), PyStr ''info''])
     (\<lambda>_. try_except
        (and_then (run_download dl c) (\<lambda>result.
           case result of
             Some returncode \<Rightarrow>
               if returncode = 0 then
                 and_then incr_success (\<lambda>_.
                 and_then (emit batch_update_signal [PyMsg Downloaded, PyStr ''success''])
                   (\<lambda>_. ret Break))
               else if returncode \<in> {100, 101} then
                 and_then (emit batch_update_signal [PyMsg Non_retryable, PyStr ''error''])
                   (\<lambda>_. ret Break)
               else gui_test_unknown st attempt
           | None \<Rightarrow> gui_test_unknown st attempt))
        (\<lambda>e.
           and_then (emit batch_update_signal [PyMsg (Exception_text e), PyStr ''error'']) (\<lambda>_.
           if attempt = max_retries st then ret Break
           else and_then (sleep (retry_delay st)) (\<lambda>_. ret Next))))"

text \<open>Lines 136-175: one pass of the loop over the URLs.\<close>

definition gui_test_job :: "downloader \<Rightarrow> settings \<Rightarrow> nat \<Rightarrow> nat \<times> string \<Rightarrow> state \<Rightarrow> ctl outcome" where
  "gui_test_job dl st total_urls job =
     (case job of (i, url) \<Rightarrow>
        and_then (emit batch_progress_signal [PyInt (int i), PyInt (int total_urls)]) (\<lambda>_.
        and_then (emit batch_update_signal [PyMsg (Processing i total_urls url), PyStr ''info'']) (\<lambda>_.
        case gui_test_template (output_dir st) url of (output_template, additional_args) \<Rightarrow>
          and_then
            (for_loop (gui_test_attempt dl st (url, output_template, additional_args))
               [1 ..< max_retries st + 1])
            (\<lambda>_. ret Next))))"

text \<open>Lines 109-177.\<close>

definition gui_test_BatchDownloadThread_run :: "downloader \<Rightarrow> settings \<Rightarrow> file_read \<Rightarrow> unit outcome" where
  "gui_test_BatchDownloadThread_run dl st file =
     and_then (configure (bitrate st) (audio_format st) (output_dir st)) (\<lambda>_.
       case file of
         Inl e \<Rightarrow>
           and_then (emit batch_update_signal [PyMsg (Read_error e), PyStr ''error'']) (\<lambda>_.
           emit batch_finished_signal [PyInt 0, PyInt 0])
       | Inr lines \<Rightarrow>
           (let urls = parse_urls lines in
            if urls = [] then
              and_then (emit batch_update_signal [PyMsg No_urls, PyStr ''warning'']) (\<lambda>_.
              emit batch_finished_signal [PyInt 0, PyInt 0])
            else
              (let total_urls = length urls in
               and_then (for_loop (gui_test_job dl st total_urls) (zip [1 ..< total_urls + 1] urls)) (\<lambda>_.
               and_then (\<lambda>s. emit batch_finished_signal [PyInt (int (success_count s)), PyInt (int total_urls)] s)
                 (\<lambda>_. ret ()))))) initial"

section \<open>gui\_downloader.py: BatchDownloadThread.run\<close>

text \<open>
  Lines 26-27. The constructor (lines 113-119) takes \<^verbatim>\<open>max_retries\<close> and
  \<^verbatim>\<open>retry_delay\<close> and stores neither; the loop reads these two constants.
\<close>

definition MAX_RETRIES :: nat where
  "MAX_RETRIES = 5"

definition RETRY_DELAY :: nat where
  "RETRY_DELAY = 30"

text \<open>
  Lines 150-162. The playlist branch reads \<^verbatim>\<open>self.__output_dir\<close>, which inside the class
  is the attribute \<^verbatim>\<open>_BatchDownloadThread__output_dir\<close>; no statement assigns it (the
  constructor sets \<^verbatim>\<open>self.output_dir\<close>), so the read raises \<^verbatim>\<open>AttributeError\<close>.
  The branch is outside every \<^verbatim>\<open>try\<close>.
\<close>

definition gui_downloader_template :: "string \<Rightarrow> string \<Rightarrow> state \<Rightarrow> (string \<times> string list option) outcome" where
  "gui_downloader_template dir url =
     (if contains ''album'' (lower url) then
        ret (Path_div dir ''{artist}/{album}/{title}.{output-ext}'', None)
      else if contains ''playlist'' (lower url) then
        raise AttributeError
      else
        ret (Path_div dir ''{title}.{output-ext}'', None))"

text \<open>
  Lines 185-189. \<^verbatim>\<open>update_signal\<close> is declared \<^verbatim>\<open>pyqtSignal(str, str)\<close> and
  \<^verbatim>\<open>finished_signal\<close> \<^verbatim>\<open>pyqtSignal(int, int)\<close>; the arguments are the source's.
\<close>

definition gui_downloader_unknown :: "nat \<Rightarrow> state \<Rightarrow> ctl outcome" where
  "gui_downloader_unknown attempt =
     (if attempt < MAX_RETRIES then
        and_then (sleep RETRY_DELAY) (\<lambda>_. ret Next)
      else
        and_then (emit batch_update_signal [PyMsg (Failed_after MAX_RETRIES)]) (\<lambda>_.
        and_then (emit batch_finished_signal [PyBool False, PyStr ''Download failed''])
          (\<lambda>_. ret Next)))"

text \<open>Lines 165-195: one pass of the retry loop.\<close>

definition gui_downloader_attempt :: "downloader \<Rightarrow> invocation \<Rightarrow> nat \<Rightarrow> state \<Rightarrow> ctl outcome" where
  "gui_downloader_attempt dl c attempt =
     and_then (emit batch_update_signal [PyMsg (Attempt attempt MAX_RETRIES), PyStr ''info''])
     (\<lambda>_. try_except
        (and_then (run_download dl c) (\<lambda>result.
           case result of
             Some returncode \<Rightarrow>
               if returncode = 0 then
                 and_then incr_success (\<lambda>_.
                 and_then (emit batch_update_signal [PyMsg Downloaded])
                   (\<lambda>_. ret Break))
               else if returncode = 100 then
                 and_then (emit batch_update_signal [PyMsg Metadata_error])
                   (\<lambda>_. ret Break)
               else if returncode = 101 then
                 and_then (emit batch_update_signal [PyMsg Lookup_error])
                   (\<lambda>_. ret Break)
               else gui_downloader_unknown attempt
           | None \<Rightarrow> gui_downloader_unknown attempt))
        (\<lambda>e.
           and_then (emit batch_update_signal [PyMsg (Exception_text e), PyStr ''error'']) (\<lambda>_.
           if attempt = MAX_RETRIES then ret Break
           else and_then (sleep RETRY_DELAY) (\<lambda>_. ret Next))))"

text \<open>Lines 144-195: one pass of the loop over the URLs.\<close>

definition gui_downloader_job :: "downloader \<Rightarrow> settings \<Rightarrow> nat \<Rightarrow> nat \<times> string \<Rightarrow> state \<Rightarrow> ctl outcome" where
  "gui_downloader_job dl st total_urls job =
     (case job of (i, url) \<Rightarrow>
        and_then (emit batch_progress_signal [PyInt (int i), PyInt (int total_urls)]) (\<lambda>_.
        and_then (emit batch_update_signal [PyMsg (Processing i total_urls url), PyStr ''info'']) (\<lambda>_.
        and_then (gui_downloader_template (output_dir st) url) (\<lambda>(output_template, additional_args).
        and_then
          (for_loop (gui_downloader_attempt dl (url, output_template, additional_args))
             [1 ..< MAX_RETRIES + 1])
          (\<lambda>_. ret Next)))))"

text \<open>Lines 121-197. The handler of the file error emits inside the \<^verbatim>\<open>except\<close> block.\<close>

definition gui_downloader_BatchDownloadThread_run :: "downloader \<Rightarrow> settings \<Rightarrow> file_read \<Rightarrow> unit outcome" where
  "gui_downloader_BatchDownloadThread_run dl st file =
     and_then (configure (bitrate st) (audio_format st) (output_dir st)) (\<lambda>_.
       case file of
         Inl e \<Rightarrow>
           and_then (emit batch_update_signal [PyMsg (Read_error e)]) (\<lambda>_.
           emit batch_finished_signal [PyInt 0, PyInt 0])
       | Inr lines \<Rightarrow>
           (let urls = parse_urls lines in
            if urls = [] then
              and_then (emit batch_update_signal [PyMsg No_urls, PyStr ''warning'']) (\<lambda>_.
              emit batch_finished_signal [PyInt 0, PyInt 0])
            else
              (let total_urls = length urls in
               and_then (for_loop (gui_downloader_job dl st total_urls) (zip [1 ..< total_urls + 1] urls)) (\<lambda>_.
               and_then (\<lambda>s. emit batch_finished_signal [PyInt (int (success_count s)), PyInt (int total_urls)] s)
                 (\<lambda>_. ret ()))))) initial"

section \<open>DownloadThread.run: the single download\<close>

text \<open>
  Both files declare \<^verbatim>\<open>update_signal = pyqtSignal(str)\<close> and
  \<^verbatim>\<open>finished_signal = pyqtSignal(bool, str)\<close> for this class.
\<close>

definition single_update_signal :: "signal \<times> pytype list" where
  "single_update_signal = (update_signal, [T_str])"

definition single_finished_signal :: "signal \<times> pytype list" where
  "single_finished_signal = (finished_signal, [T_bool, T_str])"

text \<open>
  How the chain over \<^verbatim>\<open>self.download_type\<close> ends: with \<^verbatim>\<open>result\<close> bound, or with
  the \<^verbatim>\<open>return\<close> of the \<^verbatim>\<open>"file"\<close> branch. With no branch taken \<^verbatim>\<open>result\<close> is
  unbound and the next statement, which reads it, raises \<^verbatim>\<open>UnboundLocalError\<close>.
\<close>

datatype dispatch = Result "int option" | Returned

subsection \<open>gui\_test.py, lines 37-90\<close>

definition gui_test_dispatch :: "downloader \<Rightarrow> string \<Rightarrow> string \<Rightarrow> string \<Rightarrow> state \<Rightarrow> dispatch outcome" where
  "gui_test_dispatch dl url download_type dir =
     (if download_type = ''track_album'' then
        and_then
          (run_download dl
             (url,
              (if contains ''album'' (lower url)
               then Path_div dir ''{artist}/{album}/{title}.{output-ext}''
               else Path_div dir ''{artist} - {title}.{output-ext}''),
              None))
          (\<lambda>result. ret (Result result))
      else if download_type = ''playlist'' then
        and_then
          (run_download dl
             (url, Path_div dir ''{playlist}/{title}.{output-ext}'',
              Some [''--playlist-numbering'', ''--playlist-retain-track-cover'']))
          (\<lambda>result. ret (Result result))
      else if download_type = ''search'' then
        and_then
          (run_download dl (url, Path_div dir ''{artist} - {title}.{output-ext}'', None))
          (\<lambda>result. ret (Result result))
      else if download_type = ''file'' then
        and_then (emit single_update_signal [PyMsg Use_batch_tab]) (\<lambda>_.
        and_then (emit single_finished_signal [PyBool False, PyMsg Use_batch_tab]) (\<lambda>_.
        ret Returned))
      else raise UnboundLocalError)"

definition gui_test_report :: "int option \<Rightarrow> state \<Rightarrow> unit outcome" where
  "gui_test_report result =
     (case result of
        Some returncode \<Rightarrow>
          if returncode = 100 then
            and_then (emit single_update_signal [PyMsg Metadata_error]) (\<lambda>_.
            emit single_finished_signal [PyBool False, PyStr ''Metadata TypeError''])
          else if returncode = 101 then
            and_then (emit single_update_signal [PyMsg Lookup_error]) (\<lambda>_.
            emit single_finished_signal [PyBool False, PyStr ''No results found''])
          else if returncode = 0 then
            and_then (emit single_update_signal [PyMsg Downloaded]) (\<lambda>_.
            emit single_finished_signal [PyBool True, PyStr ''Download successful''])
          else ret ()
      | None \<Rightarrow>
          and_then (emit single_update_signal [PyMsg Download_failed]) (\<lambda>_.
          emit single_finished_signal [PyBool False, PyStr ''Download failed'']))"

definition gui_test_DownloadThread_run :: "downloader \<Rightarrow> string \<Rightarrow> string \<Rightarrow> string \<Rightarrow> string \<Rightarrow> string \<Rightarrow> unit outcome" where
  "gui_test_DownloadThread_run dl url download_type dir bit_rate format =
     try_except
       (and_then (configure bit_rate format dir) (\<lambda>_.
        and_then (emit single_update_signal [PyMsg (Starting url)]) (\<lambda>_.
        and_then (gui_test_dispatch dl url download_type dir) (\<lambda>d.
        case d of Returned \<Rightarrow> ret () | Result result \<Rightarrow> gui_test_report result))))
       (\<lambda>e.
        and_then (emit single_update_signal [PyMsg (Exception_text e)]) (\<lambda>_.
        emit single_finished_signal [PyBool False, PyMsg (Str_of e)]))
       initial"

subsection \<open>gui\_downloader.py, lines 44-104\<close>

text \<open>
  The playlist branch (line 72) reads \<^verbatim>\<open>self.__output_dir\<close>, here the unassigned
  attribute \<^verbatim>\<open>_DownloadThread__output_dir\<close>, before it invokes the downloader.
\<close>

definition gui_downloader_dispatch :: "downloader \<Rightarrow> string \<Rightarrow> string \<Rightarrow> string \<Rightarrow> state \<Rightarrow> dispatch outcome" where
  "gui_downloader_dispatch dl url download_type dir =
     (if download_type = ''track'' then
        and_then (run_download dl (url, Path_div dir ''{title}.{output-ext}'', None))
          (\<lambda>result. ret (Result result))
      else if download_type = ''album'' then
        and_then (run_download dl (url, Path_div dir ''{artist}/{album}/{title}.{output-ext}'', None))
          (\<lambda>result. ret (Result result))
      else if download_type = ''playlist'' then
        raise AttributeError
      else if download_type = ''search'' then
        and_then (run_download dl (url, Path_div dir ''{title}.{output-ext} '', None))
          (\<lambda>result. ret (Result result))
      else if download_type = ''file'' then
        and_then (emit single_update_signal [PyMsg Use_batch_tab]) (\<lambda>_.
        and_then (emit single_finished_signal [PyBool False, PyMsg Use_batch_tab]) (\<lambda>_.
        ret Returned))
      else raise UnboundLocalError)"

definition gui_downloader_report :: "int option \<Rightarrow> state \<Rightarrow> unit outcome" where
  "gui_downloader_report result =
     (case result of
        Some returncode \<Rightarrow>
          if returncode = 0 then
            and_then (emit single_update_signal [PyMsg Downloaded]) (\<lambda>_.
            emit single_finished_signal [PyBool True, PyStr ''Successful Download''])
          else if returncode = 100 then
            and_then (emit single_update_signal [PyMsg Metadata_error]) (\<lambda>_.
            emit single_finished_signal [PyBool False, PyStr ''Metadata TypeError''])
          else if returncode = 101 then
            and_then (emit single_update_signal [PyMsg Lookup_error]) (\<lambda>_.
            emit single_finished_signal [PyBool False, PyStr ''Lookup Error''])
          else ret ()
      | None \<Rightarrow>
          and_then (emit single_update_signal [PyMsg Download_failed]) (\<lambda>_.
          emit single_finished_signal [PyBool False, PyStr ''Download failed'']))"

definition gui_downloader_DownloadThread_run :: "downloader \<Rightarrow> string \<Rightarrow> string \<Rightarrow> string \<Rightarrow> string \<Rightarrow> string \<Rightarrow> unit outcome" where
  "gui_downloader_DownloadThread_run dl url download_type dir bit_rate format =
     try_except
       (and_then (configure bit_rate format dir) (\<lambda>_.
        and_then (emit single_update_signal [PyMsg (Starting url)]) (\<lambda>_.
        and_then (gui_downloader_dispatch dl url download_type dir) (\<lambda>d.
        case d of Returned \<Rightarrow> ret () | Result result \<Rightarrow> gui_downloader_report result))))
       (\<lambda>e.
        and_then (emit single_update_signal [PyMsg (Exception_text e)]) (\<lambda>_.
        emit single_finished_signal [PyBool False, PyMsg (Str_of e)]))
       initial"

section \<open>What a trace shows\<close>

fun is_finished :: "action \<Rightarrow> bool" where
  "is_finished (Emit finished_signal _) = True"
| "is_finished _ = False"

fun is_sleep :: "action \<Rightarrow> bool" where
  "is_sleep (Sleep _) = True"
| "is_sleep _ = False"

text \<open>The state an outcome ends in, and whether it is an exception that left the run.\<close>

fun final :: "'a outcome \<Rightarrow> state" where
  "final (Return _ s) = s"
| "final (Raise _ s) = s"

fun crashed :: "'a outcome \<Rightarrow> bool" where
  "crashed (Return _ _) = False"
| "crashed (Raise _ _) = True"

text \<open>
  The success message of the batch runner of \<^verbatim>\<open>gui_test.py\<close> (line 160); an action
  that is neither a terminal summary nor a sleep of another length than the run's
  \<^verbatim>\<open>retry_delay\<close>; a number of attempts within the run's \<^verbatim>\<open>max_retries\<close>; the
  invocation \<^verbatim>\<open>gui_test.py\<close> makes for a URL.
\<close>

definition is_downloaded :: "action \<Rightarrow> bool" where
  "is_downloaded a = (a = Emit update_signal [PyMsg Downloaded, PyStr ''success''])"

definition quiet :: "settings \<Rightarrow> action \<Rightarrow> bool" where
  "quiet st a = (\<not> is_finished a \<and> (is_sleep a \<longrightarrow> a = Sleep (retry_delay st)))"

definition within :: "settings \<Rightarrow> nat \<Rightarrow> bool" where
  "within st n = (n \<le> max_retries st \<and> (0 < max_retries st \<longrightarrow> 0 < n))"

definition gui_test_invocation :: "settings \<Rightarrow> string \<Rightarrow> invocation" where
  "gui_test_invocation st url = (url, gui_test_template (output_dir st) url)"

section \<open>Unfolding the model\<close>

lemmas string_defs = strip_def isspace_def startswith_def lower_def lower_char_def

lemmas effect_defs =
  and_then_def try_except_def ret_def raise_def emit_def sleep_def run_download_def
  configure_def incr_success_def record_action_def initial_def
  batch_update_signal_def batch_progress_signal_def batch_finished_signal_def
  single_update_signal_def single_finished_signal_def

lemmas gui_downloader_batch_defs =
  gui_downloader_BatchDownloadThread_run_def gui_downloader_job_def gui_downloader_template_def
  gui_downloader_attempt_def gui_downloader_unknown_def MAX_RETRIES_def RETRY_DELAY_def
  parse_urls_def is_job_line_def

lemmas gui_test_batch_defs =
  gui_test_BatchDownloadThread_run_def gui_test_job_def gui_test_template_def
  gui_test_attempt_def gui_test_unknown_def parse_urls_def is_job_line_def

lemmas single_defs =
  gui_test_DownloadThread_run_def gui_test_dispatch_def gui_test_report_def
  gui_downloader_DownloadThread_run_def gui_downloader_dispatch_def gui_downloader_report_def

lemma upt_1_6: "[Suc 0 ..< 6] = [1, 2, 3, 4, 5]"
  by (simp add: upt_rec)

section \<open>gui\_test.py: what every batch run does\<close>

lemma invocations_append: "invocations (xs @ ys) = invocations xs @ invocations ys"
  by (induction xs rule: invocations.induct) simp_all

lemma gui_test_attempt_post:
  "\<exists>k s' xs. gui_test_attempt dl st c a s = Return k s'
      \<and> trace s' = trace s @ xs
      \<and> invocations xs = [c]
      \<and> list_all (quiet st) xs
      \<and> success_count s' = success_count s + length (filter is_downloaded xs)
      \<and> (k = Next \<and> filter is_downloaded xs = [] \<or> k = Break \<and> length (filter is_downloaded xs) \<le> 1)"
proof (cases "dl (invocations (trace s)) c")
  case (Returncode rc)
  then show ?thesis
    by (simp add: gui_test_attempt_def gui_test_unknown_def effect_defs invocations_append quiet_def is_downloaded_def)
next
  case NoReturncode
  then show ?thesis
    by (simp add: gui_test_attempt_def gui_test_unknown_def effect_defs invocations_append quiet_def is_downloaded_def)
next
  case (Raises m)
  then show ?thesis
    by (simp add: gui_test_attempt_def gui_test_unknown_def effect_defs invocations_append quiet_def is_downloaded_def)
qed


lemma gui_test_retry_loop_post:
  "\<exists>s' xs n. for_loop (gui_test_attempt dl st c) as s = Return () s'
      \<and> trace s' = trace s @ xs
      \<and> invocations xs = replicate n c \<and> n \<le> length as \<and> (as \<noteq> [] \<longrightarrow> 0 < n)
      \<and> list_all (quiet st) xs
      \<and> success_count s' = success_count s + length (filter is_downloaded xs)
      \<and> length (filter is_downloaded xs) \<le> 1"
proof (induction as arbitrary: s)
  case Nil
  show ?case
    by (rule exI [of _ s], rule exI [of _ "[]"], rule exI [of _ 0]) simp
next
  case (Cons a as)
  obtain k s1 xs1 where step: "gui_test_attempt dl st c a s = Return k s1"
    and tr1: "trace s1 = trace s @ xs1"
    and inv1: "invocations xs1 = [c]"
    and q1: "list_all (quiet st) xs1"
    and sc1: "success_count s1 = success_count s + length (filter is_downloaded xs1)"
    and k1: "k = Next \<and> filter is_downloaded xs1 = [] \<or> k = Break \<and> length (filter is_downloaded xs1) \<le> 1"
    using gui_test_attempt_post [of dl st c a s] by blast
  show ?case
  proof (cases k)
    case Break
    with step have "for_loop (gui_test_attempt dl st c) (a # as) s = Return () s1"
      by simp
    moreover have "invocations xs1 = replicate 1 c"
      using inv1 by simp
    moreover have "length (filter is_downloaded xs1) \<le> 1"
      using k1 Break by auto
    ultimately show ?thesis
      using tr1 q1 sc1 by (intro exI [of _ s1] exI [of _ xs1] exI [of _ 1]) simp
  next
    case Next
    with k1 have none: "filter is_downloaded xs1 = []"
      by simp
    obtain s2 xs2 n2 where loop: "for_loop (gui_test_attempt dl st c) as s1 = Return () s2"
      and tr2: "trace s2 = trace s1 @ xs2"
      and inv2: "invocations xs2 = replicate n2 c" and n2: "n2 \<le> length as"
      and q2: "list_all (quiet st) xs2"
      and sc2: "success_count s2 = success_count s1 + length (filter is_downloaded xs2)"
      and d2: "length (filter is_downloaded xs2) \<le> 1"
      using Cons.IH [of s1] by blast
    have "for_loop (gui_test_attempt dl st c) (a # as) s = Return () s2"
      using step Next loop by simp
    moreover have "invocations (xs1 @ xs2) = replicate (Suc n2) c"
      using inv1 inv2 by (simp add: invocations_append)
    ultimately show ?thesis
      using tr1 tr2 n2 q1 q2 sc1 sc2 d2 none
      by (intro exI [of _ s2] exI [of _ "xs1 @ xs2"] exI [of _ "Suc n2"]) simp
  qed
qed

lemma gui_test_job_post:
  "\<exists>s' xs n. gui_test_job dl st total_urls (i, url) s = Return Next s'
      \<and> trace s' = trace s @ xs
      \<and> invocations xs = replicate n (gui_test_invocation st url)
      \<and> within st n
      \<and> list_all (quiet st) xs
      \<and> success_count s' = success_count s + length (filter is_downloaded xs)
      \<and> length (filter is_downloaded xs) \<le> 1"
proof -
  define c where "c = gui_test_invocation st url"
  define s0 where "s0 = s\<lparr>trace := trace s @
      [Emit progress_signal [PyInt (int i), PyInt (int total_urls)],
       Emit update_signal [PyMsg (Processing i total_urls url), PyStr ''info'']]\<rparr>"
  obtain s2 xs2 n where loop: "for_loop (gui_test_attempt dl st c) [1 ..< max_retries st + 1] s0 = Return () s2"
    and tr2: "trace s2 = trace s0 @ xs2"
    and inv2: "invocations xs2 = replicate n c" and n: "n \<le> length [1 ..< max_retries st + 1]"
    and pos: "[1 ..< max_retries st + 1] \<noteq> [] \<longrightarrow> 0 < n"
    and q2: "list_all (quiet st) xs2"
    and sc2: "success_count s2 = success_count s0 + length (filter is_downloaded xs2)"
    and d2: "length (filter is_downloaded xs2) \<le> 1"
    using gui_test_retry_loop_post [of dl st c "[1 ..< max_retries st + 1]" s0] by blast
  have run: "gui_test_job dl st total_urls (i, url) s = Return Next s2"
    using loop by (simp add: gui_test_job_def effect_defs s0_def c_def gui_test_invocation_def split: prod.splits)
  let ?xs = "[Emit progress_signal [PyInt (int i), PyInt (int total_urls)],
       Emit update_signal [PyMsg (Processing i total_urls url), PyStr ''info'']] @ xs2"
  have "trace s2 = trace s @ ?xs"
    using tr2 by (simp add: s0_def)
  moreover have "invocations ?xs = replicate n c"
    using inv2 by simp
  moreover have "list_all (quiet st) ?xs"
    using q2 by (simp add: quiet_def)
  moreover have "success_count s2 = success_count s + length (filter is_downloaded ?xs)"
    using sc2 by (simp add: s0_def is_downloaded_def)
  moreover have "length (filter is_downloaded ?xs) \<le> 1"
    using d2 by (simp add: is_downloaded_def)
  moreover have "within st n"
    using n pos by (simp add: within_def del: upt_Suc)
  ultimately show ?thesis
    using run unfolding c_def
    by (intro exI [of _ s2] exI [of _ ?xs] exI [of _ n]) blast
qed


lemma gui_test_jobs_post:
  "\<exists>s' xs ns. for_loop (gui_test_job dl st total_urls) js s = Return () s'
      \<and> trace s' = trace s @ xs
      \<and> length ns = length js \<and> list_all (within st) ns
      \<and> invocations xs = concat (map2 (\<lambda>n url. replicate n (gui_test_invocation st url)) ns (map snd js))
      \<and> list_all (quiet st) xs
      \<and> success_count s' = success_count s + length (filter is_downloaded xs)
      \<and> length (filter is_downloaded xs) \<le> length js"
proof (induction js arbitrary: s)
  case Nil
  show ?case
    by (rule exI [of _ s], rule exI [of _ "[]"], rule exI [of _ "[]"]) simp
next
  case (Cons j js)
  obtain i url where j: "j = (i, url)"
    by (cases j)
  obtain s1 xs1 n where step: "gui_test_job dl st total_urls (i, url) s = Return Next s1"
    and tr1: "trace s1 = trace s @ xs1"
    and inv1: "invocations xs1 = replicate n (gui_test_invocation st url)"
    and n: "within st n"
    and q1: "list_all (quiet st) xs1"
    and sc1: "success_count s1 = success_count s + length (filter is_downloaded xs1)"
    and d1: "length (filter is_downloaded xs1) \<le> 1"
    using gui_test_job_post [of dl st total_urls i url s] by blast
  obtain s2 xs2 ns where loop: "for_loop (gui_test_job dl st total_urls) js s1 = Return () s2"
    and tr2: "trace s2 = trace s1 @ xs2"
    and len: "length ns = length js" and ns: "list_all (within st) ns"
    and inv2: "invocations xs2 = concat (map2 (\<lambda>n url. replicate n (gui_test_invocation st url)) ns (map snd js))"
    and q2: "list_all (quiet st) xs2"
    and sc2: "success_count s2 = success_count s1 + length (filter is_downloaded xs2)"
    and d2: "length (filter is_downloaded xs2) \<le> length js"
    using Cons.IH [of s1] by blast
  have "for_loop (gui_test_job dl st total_urls) (j # js) s = Return () s2"
    using step loop j by simp
  moreover have "trace s2 = trace s @ (xs1 @ xs2)"
    using tr1 tr2 by simp
  moreover have "length (n # ns) = length (j # js)"
    using len by simp
  moreover have "list_all (within st) (n # ns)"
    using n ns by simp
  moreover have "invocations (xs1 @ xs2) =
      concat (map2 (\<lambda>n url. replicate n (gui_test_invocation st url)) (n # ns) (map snd (j # js)))"
    using inv1 inv2 j by (simp add: invocations_append)
  moreover have "list_all (quiet st) (xs1 @ xs2)"
    using q1 q2 by simp
  moreover have "success_count s2 = success_count s + length (filter is_downloaded (xs1 @ xs2))"
    using sc1 sc2 by simp
  moreover have "length (filter is_downloaded (xs1 @ xs2)) \<le> length (j # js)"
    using d1 d2 by simp
  ultimately show ?case
    by (intro exI [of _ s2] exI [of _ "xs1 @ xs2"] exI [of _ "n # ns"]) blast
qed

lemma map_snd_enumerate: "map snd (zip [1 ..< length xs + 1] xs) = xs"
  by (rule map_snd_zip) (simp del: upt_Suc)

text \<open>The run over a batch file with at least one job line.\<close>

lemma gui_test_run_post:
  assumes "parse_urls lines \<noteq> []"
  shows "\<exists>s xs ns. gui_test_BatchDownloadThread_run dl st (Inr lines) = Return () s
      \<and> trace s = Configure (bitrate st) (audio_format st) (output_dir st) # xs @
          [Emit finished_signal [PyInt (int (success_count s)), PyInt (int (length (parse_urls lines)))]]
      \<and> length ns = length (parse_urls lines) \<and> list_all (within st) ns
      \<and> invocations xs = concat (map2 (\<lambda>n url. replicate n (gui_test_invocation st url)) ns (parse_urls lines))
      \<and> list_all (quiet st) xs
      \<and> success_count s = length (filter is_downloaded xs)
      \<and> success_count s \<le> length (parse_urls lines)"
proof -
  define urls where "urls = parse_urls lines"
  define s0 where "s0 = \<lparr>trace = [Configure (bitrate st) (audio_format st) (output_dir st)], success_count = 0\<rparr>"
  obtain s1 xs ns where loop: "for_loop (gui_test_job dl st (length urls)) (zip [1 ..< length urls + 1] urls) s0 = Return () s1"
    and tr1: "trace s1 = trace s0 @ xs"
    and len: "length ns = length (zip [1 ..< length urls + 1] urls)" and ns: "list_all (within st) ns"
    and inv: "invocations xs = concat (map2 (\<lambda>n url. replicate n (gui_test_invocation st url)) ns
                 (map snd (zip [1 ..< length urls + 1] urls)))"
    and q: "list_all (quiet st) xs"
    and sc: "success_count s1 = success_count s0 + length (filter is_downloaded xs)"
    and d: "length (filter is_downloaded xs) \<le> length (zip [1 ..< length urls + 1] urls)"
    using gui_test_jobs_post [of dl st "length urls" "zip [1 ..< length urls + 1] urls" s0] by blast
  define s2 where "s2 = s1\<lparr>trace := trace s1 @
      [Emit finished_signal [PyInt (int (success_count s1)), PyInt (int (length urls))]]\<rparr>"
  have lz: "length (zip [1 ..< length urls + 1] urls) = length urls"
    by (simp del: upt_Suc)
  have "gui_test_BatchDownloadThread_run dl st (Inr lines) = Return () s2"
    using assms loop
    by (simp add: gui_test_BatchDownloadThread_run_def effect_defs urls_def [symmetric] s0_def s2_def Let_def del: upt_Suc)
  moreover have "trace s2 = Configure (bitrate st) (audio_format st) (output_dir st) # xs @
      [Emit finished_signal [PyInt (int (success_count s2)), PyInt (int (length urls))]]"
    using tr1 by (simp add: s2_def s0_def)
  moreover have "length ns = length urls"
    using len lz by simp
  moreover have "invocations xs = concat (map2 (\<lambda>n url. replicate n (gui_test_invocation st url)) ns urls)"
    using inv by (simp only: map_snd_enumerate)
  moreover have "success_count s2 = length (filter is_downloaded xs)"
    using sc by (simp add: s2_def s0_def)
  moreover have "success_count s2 \<le> length urls"
    using sc d lz by (simp add: s2_def s0_def)
  ultimately show ?thesis
    using ns q unfolding urls_def
    by (intro exI [of _ s2] exI [of _ xs] exI [of _ ns]) blast
qed


lemma gui_test_read_error:
  "gui_test_BatchDownloadThread_run dl st (Inl e) =
     Return () \<lparr>trace = [Configure (bitrate st) (audio_format st) (output_dir st),
                         Emit update_signal [PyMsg (Read_error e), PyStr ''error''],
                         Emit finished_signal [PyInt 0, PyInt 0]],
                success_count = 0\<rparr>"
  by (simp add: gui_test_batch_defs effect_defs)

lemma quiet_no_finished: "list_all (quiet st) xs \<Longrightarrow> filter is_finished xs = []"
  by (induction xs) (auto simp: quiet_def)

lemma quiet_sleeps: "list_all (quiet st) xs \<Longrightarrow> a \<in> set xs \<Longrightarrow> is_sleep a \<Longrightarrow> a = Sleep (retry_delay st)"
  by (induction xs) (auto simp: quiet_def)

lemma gui_test_no_jobs:
  "parse_urls lines = [] \<Longrightarrow>
   gui_test_BatchDownloadThread_run dl st (Inr lines) =
     Return () \<lparr>trace = [Configure (bitrate st) (audio_format st) (output_dir st),
                         Emit update_signal [PyMsg No_urls, PyStr ''warning''],
                         Emit finished_signal [PyInt 0, PyInt 0]],
                success_count = 0\<rparr>"
  by (simp add: gui_test_BatchDownloadThread_run_def effect_defs)

lemma length_parse_urls: "length (parse_urls lines) = length (filter is_job_line lines)"
  by (simp add: parse_urls_def)

text \<open>
  The run of \<^verbatim>\<open>gui_test.py\<close> returns for every file and every downloader, and its
  trace holds exactly one terminal summary.
\<close>

lemma gui_test_run_terminal_once:
  "\<exists>s. gui_test_BatchDownloadThread_run dl st contents = Return () s
      \<and> length (filter is_finished (trace s)) = 1"
proof (cases contents)
  case (Inl e)
  then show ?thesis
    by (simp add: gui_test_read_error)
next
  case (Inr lines)
  show ?thesis
  proof (cases "parse_urls lines = []")
    case True
    then show ?thesis
      using Inr by (simp add: gui_test_no_jobs)
  next
    case False
    then obtain s xs where "gui_test_BatchDownloadThread_run dl st (Inr lines) = Return () s"
      and "trace s = Configure (bitrate st) (audio_format st) (output_dir st) # xs @
          [Emit finished_signal [PyInt (int (success_count s)), PyInt (int (length (parse_urls lines)))]]"
      and "list_all (quiet st) xs"
      using gui_test_run_post [of lines dl st] by blast
    then show ?thesis
      using Inr by (simp add: quiet_no_finished)
  qed
qed

text \<open>
  The summary of \<^verbatim>\<open>gui_test.py\<close>: the total is the number of job lines, the
  success count is the number of success messages and is at most the total.
\<close>

lemma gui_test_summary:
  "\<exists>s. gui_test_BatchDownloadThread_run dl st (Inr lines) = Return () s
      \<and> last (trace s) = Emit finished_signal
           [PyInt (int (success_count s)), PyInt (int (length (filter is_job_line lines)))]
      \<and> success_count s = length (filter is_downloaded (trace s))
      \<and> success_count s \<le> length (filter is_job_line lines)"
proof (cases "parse_urls lines = []")
  case True
  moreover from True have "length (filter is_job_line lines) = 0"
    by (simp add: length_parse_urls [symmetric])
  ultimately show ?thesis
    by (simp add: gui_test_no_jobs is_downloaded_def)
next
  case False
  then obtain s xs where "gui_test_BatchDownloadThread_run dl st (Inr lines) = Return () s"
    and "trace s = Configure (bitrate st) (audio_format st) (output_dir st) # xs @
        [Emit finished_signal [PyInt (int (success_count s)), PyInt (int (length (parse_urls lines)))]]"
    and "success_count s = length (filter is_downloaded xs)"
    and "success_count s \<le> length (parse_urls lines)"
    using gui_test_run_post [of lines dl st] by blast
  then show ?thesis
    by (simp add: length_parse_urls is_downloaded_def)
qed

text \<open>
  In \<^verbatim>\<open>gui_test.py\<close> every sleep lasts the run's \<^verbatim>\<open>retry_delay\<close>, and the invocations
  are, job by job in file order, at most \<^verbatim>\<open>max_retries\<close> repetitions of the job's
  invocation.
\<close>

lemma within_le: "list_all (within st) ns \<Longrightarrow> list_all (\<lambda>n. n \<le> max_retries st) ns"
  by (induction ns) (auto simp: within_def)

lemma gui_test_settings_govern:
  "\<exists>s ns. gui_test_BatchDownloadThread_run dl st (Inr lines) = Return () s
      \<and> (\<forall>a \<in> set (trace s). is_sleep a \<longrightarrow> a = Sleep (retry_delay st))
      \<and> length ns = length (parse_urls lines)
      \<and> list_all (\<lambda>n. n \<le> max_retries st) ns
      \<and> invocations (trace s) =
          concat (map2 (\<lambda>n url. replicate n (gui_test_invocation st url)) ns (parse_urls lines))"
proof (cases "parse_urls lines = []")
  case True
  then show ?thesis
    by (simp add: gui_test_no_jobs)
next
  case False
  then obtain s xs ns where run: "gui_test_BatchDownloadThread_run dl st (Inr lines) = Return () s"
    and tr: "trace s = Configure (bitrate st) (audio_format st) (output_dir st) # xs @
        [Emit finished_signal [PyInt (int (success_count s)), PyInt (int (length (parse_urls lines)))]]"
    and len: "length ns = length (parse_urls lines)" and ns: "list_all (within st) ns"
    and inv: "invocations xs = concat (map2 (\<lambda>n url. replicate n (gui_test_invocation st url)) ns (parse_urls lines))"
    and q: "list_all (quiet st) xs"
    using gui_test_run_post [of lines dl st] by blast
  have "\<forall>a \<in> set (trace s). is_sleep a \<longrightarrow> a = Sleep (retry_delay st)"
    using tr q by (auto dest: quiet_sleeps)
  moreover have "invocations (trace s) = invocations xs"
    using tr by (simp add: invocations_append)
  ultimately show ?thesis
    using run len inv within_le [OF ns]
    by (intro exI [of _ s] exI [of _ ns]) simp
qed

text \<open>
  In \<^verbatim>\<open>gui_test.py\<close>, with \<^verbatim>\<open>max_retries\<close> positive, every job line is attempted,
  and a URL with neither keyword takes the track route.
\<close>

lemma replicated_member:
  "length ns = length us \<Longrightarrow> list_all (\<lambda>n. 0 < n) ns \<Longrightarrow> u \<in> set us \<Longrightarrow>
   f u \<in> set (concat (map2 (\<lambda>n u. replicate n (f u)) ns us))"
  by (induction ns us rule: list_induct2) auto

lemma within_pos: "0 < max_retries st \<Longrightarrow> list_all (within st) ns \<Longrightarrow> list_all (\<lambda>n. 0 < n) ns"
  by (induction ns) (auto simp: within_def)

lemma gui_test_every_line_attempted:
  assumes "0 < max_retries st"
  shows "\<exists>s. gui_test_BatchDownloadThread_run dl st (Inr lines) = Return () s
      \<and> (\<forall>url \<in> set (parse_urls lines). gui_test_invocation st url \<in> set (invocations (trace s)))"
proof (cases "parse_urls lines = []")
  case True
  then show ?thesis
    by (simp add: gui_test_no_jobs)
next
  case False
  then obtain s xs ns where run: "gui_test_BatchDownloadThread_run dl st (Inr lines) = Return () s"
    and tr: "trace s = Configure (bitrate st) (audio_format st) (output_dir st) # xs @
        [Emit finished_signal [PyInt (int (success_count s)), PyInt (int (length (parse_urls lines)))]]"
    and len: "length ns = length (parse_urls lines)" and ns: "list_all (within st) ns"
    and inv: "invocations xs = concat (map2 (\<lambda>n url. replicate n (gui_test_invocation st url)) ns (parse_urls lines))"
    using gui_test_run_post [of lines dl st] by blast
  have "invocations (trace s) = invocations xs"
    using tr by (simp add: invocations_append)
  then have "\<forall>url \<in> set (parse_urls lines). gui_test_invocation st url \<in> set (invocations (trace s))"
    using inv replicated_member [OF len within_pos [OF assms ns], of _ "gui_test_invocation st"] by simp
  then show ?thesis
    using run by simp
qed

lemma gui_test_track_route:
  "\<not> contains ''playlist'' (lower url) \<Longrightarrow> \<not> contains ''album'' (lower url) \<Longrightarrow>
   gui_test_invocation st url = (url, Path_div (output_dir st) ''{artist} - {title}.{output-ext}'', None)"
  by (simp add: gui_test_invocation_def gui_test_template_def)

section \<open>The batch file\<close>

lemma parse_urls_no_jobs:
  "list_all (\<lambda>line. strip line = [] \<or> startswith (strip line) ''#'') lines \<Longrightarrow> parse_urls lines = []"
  by (induction lines) (auto simp: parse_urls_def is_job_line_def)

text \<open>
  Claim C7. A readable batch file whose lines are all blank or comments: both batch
  runners emit the "no URLs" warning, emit the terminal summary \<open>(0, 0)\<close> and return;
  the trace holds no invocation of the downloader.
\<close>

theorem C7_no_jobs:
  assumes "list_all (\<lambda>line. strip line = [] \<or> startswith (strip line) ''#'') lines"
  shows "gui_test_BatchDownloadThread_run dl st (Inr lines) =
           Return () \<lparr>trace = [Configure (bitrate st) (audio_format st) (output_dir st),
                               Emit update_signal [PyMsg No_urls, PyStr ''warning''],
                               Emit finished_signal [PyInt 0, PyInt 0]],
                      success_count = 0\<rparr>
       \<and> gui_downloader_BatchDownloadThread_run dl st (Inr lines) =
           Return () \<lparr>trace = [Configure (bitrate st) (audio_format st) (output_dir st),
                               Emit update_signal [PyMsg No_urls, PyStr ''warning''],
                               Emit finished_signal [PyInt 0, PyInt 0]],
                      success_count = 0\<rparr>"
proof -
  have "parse_urls lines = []"
    using assms by (rule parse_urls_no_jobs)
  then show ?thesis
    by (simp add: gui_test_BatchDownloadThread_run_def gui_downloader_BatchDownloadThread_run_def effect_defs)
qed

theorem C7_no_jobs_witness:
  "list_all (\<lambda>line. strip line = [] \<or> startswith (strip line) ''#'')
     [''# my playlists\<newline>'', ''\<newline>'', ''   '', ''  # https://open.spotify.com/track/1\<newline>'']
   \<and> gui_test_BatchDownloadThread_run (\<lambda>h c. Returncode 0)
       \<lparr>output_dir = ''Music'', bitrate = ''320k'', audio_format = ''mp3'', max_retries = 5, retry_delay = 20\<rparr>
       (Inr [''# my playlists\<newline>'', ''\<newline>'', ''   '', ''  # https://open.spotify.com/track/1\<newline>'']) =
     Return () \<lparr>trace = [Configure ''320k'' ''mp3'' ''Music'',
                         Emit update_signal [PyMsg No_urls, PyStr ''warning''],
                         Emit finished_signal [PyInt 0, PyInt 0]],
                success_count = 0\<rparr>
   \<and> gui_downloader_BatchDownloadThread_run (\<lambda>h c. Returncode 0)
       \<lparr>output_dir = ''Music'', bitrate = ''320k'', audio_format = ''mp3'', max_retries = 5, retry_delay = 20\<rparr>
       (Inr [''# my playlists\<newline>'', ''\<newline>'', ''   '', ''  # https://open.spotify.com/track/1\<newline>'']) =
     Return () \<lparr>trace = [Configure ''320k'' ''mp3'' ''Music'',
                         Emit update_signal [PyMsg No_urls, PyStr ''warning''],
                         Emit finished_signal [PyInt 0, PyInt 0]],
                success_count = 0\<rparr>"
proof -
  have h: "list_all (\<lambda>line. strip line = [] \<or> startswith (strip line) ''#'')
     [''# my playlists\<newline>'', ''\<newline>'', ''   '', ''  # https://open.spotify.com/track/1\<newline>'']"
    by (simp add: string_defs)
  show ?thesis
    using h C7_no_jobs [OF h, of "\<lambda>h c. Returncode 0"
        "\<lparr>output_dir = ''Music'', bitrate = ''320k'', audio_format = ''mp3'', max_retries = 5, retry_delay = 20\<rparr>"]
    by simp
qed

text \<open>
  Claim C8, \<^verbatim>\<open>gui_downloader.py\<close>. The handler (line 132) emits \<^verbatim>\<open>update_signal\<close>, declared
  with two arguments, with one: the \<^verbatim>\<open>TypeError\<close> is raised inside the \<^verbatim>\<open>except\<close>
  block and leaves \<^verbatim>\<open>run\<close>; neither the error event nor the summary \<open>(0, 0)\<close> is
  emitted.
\<close>

theorem C8_gui_downloader_read_error_crash:
  "gui_downloader_BatchDownloadThread_run dl st (Inl e) =
     Raise TypeError \<lparr>trace = [Configure (bitrate st) (audio_format st) (output_dir st)], success_count = 0\<rparr>"
  by (simp add: gui_downloader_batch_defs effect_defs)

section \<open>The batch run ends with its summary\<close>

text \<open>
  In \<^verbatim>\<open>gui_downloader.py\<close> a batch file whose first job line is a playlist URL (one
  without \<^verbatim>\<open>album\<close> in it) ends the run with the \<^verbatim>\<open>AttributeError\<close> of line 156,
  whatever follows and whatever the downloader does.
\<close>

lemma gui_downloader_playlist_crashes:
  assumes "parse_urls lines = url # rest"
    and "contains ''playlist'' (lower url)" and "\<not> contains ''album'' (lower url)"
  shows "gui_downloader_BatchDownloadThread_run dl st (Inr lines) =
     Raise AttributeError
       \<lparr>trace = [Configure (bitrate st) (audio_format st) (output_dir st),
                  Emit progress_signal [PyInt 1, PyInt (int (length (url # rest)))],
                  Emit update_signal [PyMsg (Processing 1 (length (url # rest)) url), PyStr ''info'']],
        success_count = 0\<rparr>"
proof -
  have "zip [1 ..< length (url # rest) + 1] (url # rest) =
      (1, url) # zip [Suc 1 ..< length (url # rest) + 1] rest"
    by (simp add: upt_conv_Cons del: upt_Suc)
  then show ?thesis
    using assms
    by (simp add: gui_downloader_BatchDownloadThread_run_def gui_downloader_job_def
        gui_downloader_template_def effect_defs del: upt_Suc)
qed

text \<open>
  Claim C1, \<^verbatim>\<open>gui_downloader.py\<close>. A batch file with one playlist URL: whatever the
  downloader does, the run ends with the \<^verbatim>\<open>AttributeError\<close> of line 156 before any
  attempt, and the terminal summary is never emitted.
\<close>

theorem C1_gui_downloader_playlist_crash:
  "gui_downloader_BatchDownloadThread_run dl st (Inr [''https://open.spotify.com/playlist/37i9dQZF1DXcBWIGoYBM5M\<newline>'']) =
     Raise AttributeError
       \<lparr>trace = [Configure (bitrate st) (audio_format st) (output_dir st),
                  Emit progress_signal [PyInt 1, PyInt 1],
                  Emit update_signal
                    [PyMsg (Processing 1 1 ''https://open.spotify.com/playlist/37i9dQZF1DXcBWIGoYBM5M''), PyStr ''info'']],
        success_count = 0\<rparr>"
  by (simp add: gui_downloader_batch_defs string_defs effect_defs)

section \<open>The classifier\<close>

lemma join_sep_Cons: "xs \<noteq> [] \<Longrightarrow> join_sep (p # xs) = p @ ''/'' @ join_sep xs"
  by (cases xs) simp_all

lemma join_sep_last_two: "\<exists>pre. join_sep (ps @ [a, b]) = pre @ a @ ''/'' @ b"
proof (induction ps)
  case Nil
  show ?case by simp
next
  case (Cons p ps)
  then obtain pre where "join_sep (ps @ [a, b]) = pre @ a @ ''/'' @ b"
    by blast
  then have "join_sep ((p # ps) @ [a, b]) = (p @ ''/'' @ pre) @ a @ ''/'' @ b"
    by (simp add: join_sep_Cons)
  then show ?case
    by blast
qed

lemma startswith_append: "startswith (sub @ post) sub"
  by (simp add: startswith_def)

lemma contains_append: "contains sub (pre @ sub @ post)"
proof (induction pre)
  case Nil
  show ?case
    using startswith_append [of sub post] by (cases "sub @ post") auto
next
  case (Cons c pre)
  then show ?case by simp
qed

lemma Path_div_playlist:
  "\<exists>pre. Path_div dir ''{playlist}/{title}.{output-ext}'' = pre @ ''{playlist}/{title}.{output-ext}''"
proof -
  have parts: "path_parts ''{playlist}/{title}.{output-ext}'' = [''{playlist}'', ''{title}.{output-ext}'']"
    by (simp add: path_parts_def)
  obtain pre where "join_sep (path_parts dir @ [''{playlist}'', ''{title}.{output-ext}'']) =
      pre @ ''{playlist}'' @ ''/'' @ ''{title}.{output-ext}''"
    using join_sep_last_two by blast
  then have "Path_div dir ''{playlist}/{title}.{output-ext}'' =
      (path_root dir @ pre) @ ''{playlist}/{title}.{output-ext}''"
    by (simp add: Path_div_def parts)
  then show ?thesis
    by blast
qed

text \<open>
  The classifier of \<^verbatim>\<open>gui_test.py\<close> tests \<^verbatim>\<open>playlist\<close> first: a URL whose lower-cased
  form contains it takes the playlist route, whether or not it contains \<^verbatim>\<open>album\<close>.
\<close>

lemma gui_test_playlist_first:
  assumes "contains ''playlist'' (lower url)"
  shows "gui_test_template dir url =
           (Path_div dir ''{playlist}/{title}.{output-ext}'',
            Some [''--playlist-numbering'', ''--playlist-retain-track-cover''])"
    and "contains ''{playlist}/{title}'' (fst (gui_test_template dir url))"
proof -
  show t: "gui_test_template dir url =
           (Path_div dir ''{playlist}/{title}.{output-ext}'',
            Some [''--playlist-numbering'', ''--playlist-retain-track-cover''])"
    using assms by (simp add: gui_test_template_def)
  obtain pre where "Path_div dir ''{playlist}/{title}.{output-ext}'' = pre @ ''{playlist}/{title}.{output-ext}''"
    using Path_div_playlist by blast
  then have "fst (gui_test_template dir url) = pre @ ''{playlist}/{title}'' @ ''.{output-ext}''"
    using t by simp
  then show "contains ''{playlist}/{title}'' (fst (gui_test_template dir url))"
    by (simp only: contains_append)
qed

text \<open>The classifier of \<^verbatim>\<open>gui_downloader.py\<close> tests \<^verbatim>\<open>album\<close> first.\<close>

lemma gui_downloader_album_route:
  "contains ''album'' (lower url) \<Longrightarrow>
   gui_downloader_template dir url s =
     Return (Path_div dir ''{artist}/{album}/{title}.{output-ext}'', None) s"
  by (simp add: gui_downloader_template_def ret_def)

text \<open>
  Claim C2, \<^verbatim>\<open>gui_downloader.py\<close>. A URL whose lower-cased form contains both
  \<^verbatim>\<open>playlist\<close> and \<^verbatim>\<open>album\<close>: lines 150-157 test \<^verbatim>\<open>album\<close> first, so the URL
  gets the album template and no extra arguments.
\<close>

theorem C2_gui_downloader_album_first:
  "contains ''playlist'' (lower ''https://open.spotify.com/playlist/5AlbumQzX1'')
   \<and> contains ''album'' (lower ''https://open.spotify.com/playlist/5AlbumQzX1'')
   \<and> gui_downloader_template dir ''https://open.spotify.com/playlist/5AlbumQzX1'' s =
       Return (Path_div dir ''{artist}/{album}/{title}.{output-ext}'', None) s"
  by (simp add: gui_downloader_template_def string_defs ret_def)

section \<open>The retry loop\<close>

text \<open>
  The retry loop of \<^verbatim>\<open>gui_test.py\<close>, first attempt answered with returncode 100 or 101:
  one invocation, no sleep, no success, whatever \<^verbatim>\<open>max_retries\<close> is.
\<close>

lemma gui_test_classified_stops:
  assumes "dl (invocations (trace s)) c = Returncode rc" and "rc = 100 \<or> rc = 101"
    and "0 < max_retries st"
  shows "for_loop (gui_test_attempt dl st c) [1 ..< max_retries st + 1] s =
     Return () (s\<lparr>trace := trace s @
       [Emit update_signal [PyMsg (Attempt 1 (max_retries st)), PyStr ''info''],
        Run_download c,
        Emit update_signal [PyMsg Non_retryable, PyStr ''error'']]\<rparr>)"
proof -
  have "[1 ..< max_retries st + 1] = 1 # [Suc 1 ..< max_retries st + 1]"
    using assms(3) by (intro upt_conv_Cons) simp
  moreover have "gui_test_attempt dl st c 1 s =
     Return Break (s\<lparr>trace := trace s @
       [Emit update_signal [PyMsg (Attempt 1 (max_retries st)), PyStr ''info''],
        Run_download c,
        Emit update_signal [PyMsg Non_retryable, PyStr ''error'']]\<rparr>)"
    using assms(1,2) by (auto simp: gui_test_attempt_def effect_defs invocations_append)
  ultimately show ?thesis
    by simp
qed

lemma gui_test_scenario_C:
  assumes "0 < max_retries st"
  shows "gui_test_BatchDownloadThread_run (\<lambda>h c. Returncode 100) st (Inr [''https://open.spotify.com/track/1'']) =
     Return ()
       \<lparr>trace =
          [Configure (bitrate st) (audio_format st) (output_dir st),
           Emit progress_signal [PyInt 1, PyInt 1],
           Emit update_signal [PyMsg (Processing 1 1 ''https://open.spotify.com/track/1''), PyStr ''info''],
           Emit update_signal [PyMsg (Attempt 1 (max_retries st)), PyStr ''info''],
           Run_download (''https://open.spotify.com/track/1'',
             Path_div (output_dir st) ''{artist} - {title}.{output-ext}'', None),
           Emit update_signal [PyMsg Non_retryable, PyStr ''error''],
           Emit finished_signal [PyInt 0, PyInt 1]],
        success_count = 0\<rparr>"
proof -
  have urls: "parse_urls [''https://open.spotify.com/track/1''] = [''https://open.spotify.com/track/1'']"
    by (simp add: parse_urls_def is_job_line_def string_defs)
  have tmpl: "gui_test_template (output_dir st) ''https://open.spotify.com/track/1'' =
      (Path_div (output_dir st) ''{artist} - {title}.{output-ext}'', None)"
    by (simp add: gui_test_template_def string_defs)
  have job: "gui_test_job (\<lambda>h c. Returncode 100) st (Suc 0) (Suc 0, ''https://open.spotify.com/track/1'') s =
      Return Next (s\<lparr>trace := trace s @
        [Emit progress_signal [PyInt 1, PyInt 1],
         Emit update_signal [PyMsg (Processing 1 1 ''https://open.spotify.com/track/1''), PyStr ''info''],
         Emit update_signal [PyMsg (Attempt 1 (max_retries st)), PyStr ''info''],
         Run_download (''https://open.spotify.com/track/1'',
           Path_div (output_dir st) ''{artist} - {title}.{output-ext}'', None),
         Emit update_signal [PyMsg Non_retryable, PyStr ''error'']]\<rparr>)" for s
    using gui_test_classified_stops [of "\<lambda>h c. Returncode 100" _ _ 100 st, OF refl _ assms]
    by (simp add: gui_test_job_def tmpl effect_defs del: upt_Suc)
  show ?thesis
    by (simp add: gui_test_BatchDownloadThread_run_def urls job effect_defs)
qed

text \<open>
  Claim C4, \<^verbatim>\<open>gui_downloader.py\<close>. The downloader answers every invocation with
  returncode 100. Line 178 emits \<^verbatim>\<open>update_signal\<close> with one argument inside the
  \<^verbatim>\<open>try\<close>; the \<^verbatim>\<open>TypeError\<close> is caught by the handler of line 191, which sleeps
  and lets the loop go on: five invocations and four sleeps.
\<close>

theorem C4_gui_downloader_retries_classified:
  "gui_downloader_BatchDownloadThread_run (\<lambda>h c. Returncode 100) st (Inr [''https://open.spotify.com/track/1'']) =
     Return ()
       \<lparr>trace =
          [Configure (bitrate st) (audio_format st) (output_dir st),
           Emit progress_signal [PyInt 1, PyInt 1],
           Emit update_signal [PyMsg (Processing 1 1 ''https://open.spotify.com/track/1''), PyStr ''info''],
           Emit update_signal [PyMsg (Attempt 1 5), PyStr ''info''],
           Run_download (''https://open.spotify.com/track/1'', Path_div (output_dir st) ''{title}.{output-ext}'', None),
           Emit update_signal [PyMsg (Exception_text TypeError), PyStr ''error''],
           Sleep 30,
           Emit update_signal [PyMsg (Attempt 2 5), PyStr ''info''],
           Run_download (''https://open.spotify.com/track/1'', Path_div (output_dir st) ''{title}.{output-ext}'', None),
           Emit update_signal [PyMsg (Exception_text TypeError), PyStr ''error''],
           Sleep 30,
           Emit update_signal [PyMsg (Attempt 3 5), PyStr ''info''],
           Run_download (''https://open.spotify.com/track/1'', Path_div (output_dir st) ''{title}.{output-ext}'', None),
           Emit update_signal [PyMsg (Exception_text TypeError), PyStr ''error''],
           Sleep 30,
           Emit update_signal [PyMsg (Attempt 4 5), PyStr ''info''],
           Run_download (''https://open.spotify.com/track/1'', Path_div (output_dir st) ''{title}.{output-ext}'', None),
           Emit update_signal [PyMsg (Exception_text TypeError), PyStr ''error''],
           Sleep 30,
           Emit update_signal [PyMsg (Attempt 5 5), PyStr ''info''],
           Run_download (''https://open.spotify.com/track/1'', Path_div (output_dir st) ''{title}.{output-ext}'', None),
           Emit update_signal [PyMsg (Exception_text TypeError), PyStr ''error''],
           Emit finished_signal [PyInt 0, PyInt 1]],
        success_count = 0\<rparr>"
  by (simp add: gui_downloader_batch_defs string_defs effect_defs upt_1_6)

text \<open>
  Scenario B on \<^verbatim>\<open>gui_test.py\<close>: two unknown failures, then a success, with
  \<^verbatim>\<open>max_retries = 5\<close>: three invocations, two sleeps of \<^verbatim>\<open>retry_delay\<close>, summary
  \<open>(1, 1)\<close>.
\<close>

lemma gui_test_scenario_B:
  "gui_test_BatchDownloadThread_run
     (\<lambda>h c. if length h < 2 then Returncode 1 else Returncode 0)
     (st\<lparr>max_retries := 5\<rparr>) (Inr [''https://open.spotify.com/track/1'']) =
     Return ()
       \<lparr>trace =
          [Configure (bitrate st) (audio_format st) (output_dir st),
           Emit progress_signal [PyInt 1, PyInt 1],
           Emit update_signal [PyMsg (Processing 1 1 ''https://open.spotify.com/track/1''), PyStr ''info''],
           Emit update_signal [PyMsg (Attempt 1 5), PyStr ''info''],
           Run_download (''https://open.spotify.com/track/1'',
             Path_div (output_dir st) ''{artist} - {title}.{output-ext}'', None),
           Sleep (retry_delay st),
           Emit update_signal [PyMsg (Attempt 2 5), PyStr ''info''],
           Run_download (''https://open.spotify.com/track/1'',
             Path_div (output_dir st) ''{artist} - {title}.{output-ext}'', None),
           Sleep (retry_delay st),
           Emit update_signal [PyMsg (Attempt 3 5), PyStr ''info''],
           Run_download (''https://open.spotify.com/track/1'',
             Path_div (output_dir st) ''{artist} - {title}.{output-ext}'', None),
           Emit update_signal [PyMsg Downloaded, PyStr ''success''],
           Emit finished_signal [PyInt 1, PyInt 1]],
        success_count = 1\<rparr>"
  by (simp add: gui_test_batch_defs string_defs effect_defs upt_1_6)

lemma gui_test_scenario_B_raising:
  "gui_test_BatchDownloadThread_run
     (\<lambda>h c. if length h < 2 then Raises ''timed out'' else Returncode 0)
     (st\<lparr>max_retries := 5\<rparr>) (Inr [''https://open.spotify.com/track/1'']) =
     Return ()
       \<lparr>trace =
          [Configure (bitrate st) (audio_format st) (output_dir st),
           Emit progress_signal [PyInt 1, PyInt 1],
           Emit update_signal [PyMsg (Processing 1 1 ''https://open.spotify.com/track/1''), PyStr ''info''],
           Emit update_signal [PyMsg (Attempt 1 5), PyStr ''info''],
           Run_download (''https://open.spotify.com/track/1'',
             Path_div (output_dir st) ''{artist} - {title}.{output-ext}'', None),
           Emit update_signal [PyMsg (Exception_text (DownloaderError ''timed out'')), PyStr ''error''],
           Sleep (retry_delay st),
           Emit update_signal [PyMsg (Attempt 2 5), PyStr ''info''],
           Run_download (''https://open.spotify.com/track/1'',
             Path_div (output_dir st) ''{artist} - {title}.{output-ext}'', None),
           Emit update_signal [PyMsg (Exception_text (DownloaderError ''timed out'')), PyStr ''error''],
           Sleep (retry_delay st),
           Emit update_signal [PyMsg (Attempt 3 5), PyStr ''info''],
           Run_download (''https://open.spotify.com/track/1'',
             Path_div (output_dir st) ''{artist} - {title}.{output-ext}'', None),
           Emit update_signal [PyMsg Downloaded, PyStr ''success''],
           Emit finished_signal [PyInt 1, PyInt 1]],
        success_count = 1\<rparr>"
  by (simp add: gui_test_batch_defs string_defs effect_defs upt_1_6)

text \<open>
  Claim C5, \<^verbatim>\<open>gui_downloader.py\<close>. Scenario B with \<^verbatim>\<open>max_retries = 5\<close> and
  \<^verbatim>\<open>retry_delay = 20\<close>: the pauses last \<^verbatim>\<open>RETRY_DELAY = 30\<close>, and the success of the
  third attempt does not end the loop (line 174): five invocations, four pauses,
  summary \<open>(3, 1)\<close>.
\<close>

theorem C5_gui_downloader_scenario_B:
  "gui_downloader_BatchDownloadThread_run
     (\<lambda>h c. if length h < 2 then Returncode 1 else Returncode 0)
     \<lparr>output_dir = ''Music'', bitrate = ''320k'', audio_format = ''mp3'', max_retries = 5, retry_delay = 20\<rparr>
     (Inr [''https://open.spotify.com/track/1'']) =
     Return ()
       \<lparr>trace =
          [Configure ''320k'' ''mp3'' ''Music'',
           Emit progress_signal [PyInt 1, PyInt 1],
           Emit update_signal [PyMsg (Processing 1 1 ''https://open.spotify.com/track/1''), PyStr ''info''],
           Emit update_signal [PyMsg (Attempt 1 5), PyStr ''info''],
           Run_download (''https://open.spotify.com/track/1'', ''Music/{title}.{output-ext}'', None),
           Sleep 30,
           Emit update_signal [PyMsg (Attempt 2 5), PyStr ''info''],
           Run_download (''https://open.spotify.com/track/1'', ''Music/{title}.{output-ext}'', None),
           Sleep 30,
           Emit update_signal [PyMsg (Attempt 3 5), PyStr ''info''],
           Run_download (''https://open.spotify.com/track/1'', ''Music/{title}.{output-ext}'', None),
           Emit update_signal [PyMsg (Exception_text TypeError), PyStr ''error''],
           Sleep 30,
           Emit update_signal [PyMsg (Attempt 4 5), PyStr ''info''],
           Run_download (''https://open.spotify.com/track/1'', ''Music/{title}.{output-ext}'', None),
           Emit update_signal [PyMsg (Exception_text TypeError), PyStr ''error''],
           Sleep 30,
           Emit update_signal [PyMsg (Attempt 5 5), PyStr ''info''],
           Run_download (''https://open.spotify.com/track/1'', ''Music/{title}.{output-ext}'', None),
           Emit update_signal [PyMsg (Exception_text TypeError), PyStr ''error''],
           Emit finished_signal [PyInt 3, PyInt 1]],
        success_count = 3\<rparr>"
  by (simp add: gui_downloader_batch_defs string_defs effect_defs upt_1_6 Path_div_def path_parts_def path_root_def)

section \<open>The summary\<close>

text \<open>
  Scenario A on \<^verbatim>\<open>gui_test.py\<close>: a playlist URL, a comment, a blank line and an album
  URL, every download a success: summary \<open>(2, 2)\<close>, jobs in file order, the playlist
  job with the playlist template and its two extra arguments.
\<close>

lemma gui_test_scenario_A:
  "gui_test_BatchDownloadThread_run (\<lambda>h c. Returncode 0) (st\<lparr>max_retries := 5\<rparr>)
     (Inr [''https://x/playlist/1\<newline>'', ''# comment\<newline>'', ''\<newline>'', ''https://x/album/2\<newline>'']) =
     Return ()
       \<lparr>trace =
          [Configure (bitrate st) (audio_format st) (output_dir st),
           Emit progress_signal [PyInt 1, PyInt 2],
           Emit update_signal [PyMsg (Processing 1 2 ''https://x/playlist/1''), PyStr ''info''],
           Emit update_signal [PyMsg (Attempt 1 5), PyStr ''info''],
           Run_download (''https://x/playlist/1'',
             Path_div (output_dir st) ''{playlist}/{title}.{output-ext}'',
             Some [''--playlist-numbering'', ''--playlist-retain-track-cover'']),
           Emit update_signal [PyMsg Downloaded, PyStr ''success''],
           Emit progress_signal [PyInt 2, PyInt 2],
           Emit update_signal [PyMsg (Processing 2 2 ''https://x/album/2''), PyStr ''info''],
           Emit update_signal [PyMsg (Attempt 1 5), PyStr ''info''],
           Run_download (''https://x/album/2'',
             Path_div (output_dir st) ''{artist}/{album}/{title}.{output-ext}'', None),
           Emit update_signal [PyMsg Downloaded, PyStr ''success''],
           Emit finished_signal [PyInt 2, PyInt 2]],
        success_count = 2\<rparr>"
  by (simp add: gui_test_batch_defs string_defs effect_defs upt_1_6)

text \<open>
  Claim C3, \<^verbatim>\<open>gui_downloader.py\<close>. One track URL and a downloader that always succeeds.
  Line 173 counts the success, line 174 emits \<^verbatim>\<open>update_signal\<close> with one argument
  inside the \<^verbatim>\<open>try\<close>, and the handler of line 191 lets the loop go on: the job is
  downloaded and counted five times, and the summary is \<open>(5, 1)\<close>.
\<close>

theorem C3_gui_downloader_success_exceeds_total:
  "gui_downloader_BatchDownloadThread_run (\<lambda>h c. Returncode 0) st (Inr [''https://open.spotify.com/track/1'']) =
     Return ()
       \<lparr>trace =
          [Configure (bitrate st) (audio_format st) (output_dir st),
           Emit progress_signal [PyInt 1, PyInt 1],
           Emit update_signal [PyMsg (Processing 1 1 ''https://open.spotify.com/track/1''), PyStr ''info''],
           Emit update_signal [PyMsg (Attempt 1 5), PyStr ''info''],
           Run_download (''https://open.spotify.com/track/1'', Path_div (output_dir st) ''{title}.{output-ext}'', None),
           Emit update_signal [PyMsg (Exception_text TypeError), PyStr ''error''],
           Sleep 30,
           Emit update_signal [PyMsg (Attempt 2 5), PyStr ''info''],
           Run_download (''https://open.spotify.com/track/1'', Path_div (output_dir st) ''{title}.{output-ext}'', None),
           Emit update_signal [PyMsg (Exception_text TypeError), PyStr ''error''],
           Sleep 30,
           Emit update_signal [PyMsg (Attempt 3 5), PyStr ''info''],
           Run_download (''https://open.spotify.com/track/1'', Path_div (output_dir st) ''{title}.{output-ext}'', None),
           Emit update_signal [PyMsg (Exception_text TypeError), PyStr ''error''],
           Sleep 30,
           Emit update_signal [PyMsg (Attempt 4 5), PyStr ''info''],
           Run_download (''https://open.spotify.com/track/1'', Path_div (output_dir st) ''{title}.{output-ext}'', None),
           Emit update_signal [PyMsg (Exception_text TypeError), PyStr ''error''],
           Sleep 30,
           Emit update_signal [PyMsg (Attempt 5 5), PyStr ''info''],
           Run_download (''https://open.spotify.com/track/1'', Path_div (output_dir st) ''{title}.{output-ext}'', None),
           Emit update_signal [PyMsg (Exception_text TypeError), PyStr ''error''],
           Emit finished_signal [PyInt 5, PyInt 1]],
        success_count = 5\<rparr>"
  by (simp add: gui_downloader_batch_defs string_defs effect_defs upt_1_6)

section \<open>The settings of a run\<close>

text \<open>
  The batch runner of \<^verbatim>\<open>gui_downloader.py\<close> does the same whatever \<^verbatim>\<open>max_retries\<close> and
  \<^verbatim>\<open>retry_delay\<close> it is constructed with.
\<close>

lemma gui_downloader_job_settings:
  "output_dir st' = output_dir st \<Longrightarrow> gui_downloader_job dl st' = gui_downloader_job dl st"
  by (rule ext, rule ext) (simp add: gui_downloader_job_def)

lemma gui_downloader_ignores_retry_settings:
  "gui_downloader_BatchDownloadThread_run dl (st\<lparr>max_retries := m, retry_delay := d\<rparr>) contents =
   gui_downloader_BatchDownloadThread_run dl st contents"
  by (simp add: gui_downloader_BatchDownloadThread_run_def Let_def
      gui_downloader_job_settings [of "st\<lparr>max_retries := m, retry_delay := d\<rparr>" st]
      cong: sum.case_cong if_cong)

text \<open>
  Claim C6, \<^verbatim>\<open>gui_downloader.py\<close>. A run constructed with \<^verbatim>\<open>max_retries = 2\<close> and
  \<^verbatim>\<open>retry_delay = 1\<close> whose downloader always raises: five attempts and four sleeps
  of 30 seconds, the constants \<^verbatim>\<open>MAX_RETRIES\<close> and \<^verbatim>\<open>RETRY_DELAY\<close>.
\<close>

theorem C6_gui_downloader_fixed_constants:
  "gui_downloader_BatchDownloadThread_run (\<lambda>h c. Raises ''connection reset'')
     \<lparr>output_dir = ''Music'', bitrate = ''320k'', audio_format = ''mp3'', max_retries = 2, retry_delay = 1\<rparr>
     (Inr [''https://open.spotify.com/track/1'']) =
     Return ()
       \<lparr>trace =
          [Configure ''320k'' ''mp3'' ''Music'',
           Emit progress_signal [PyInt 1, PyInt 1],
           Emit update_signal [PyMsg (Processing 1 1 ''https://open.spotify.com/track/1''), PyStr ''info''],
           Emit update_signal [PyMsg (Attempt 1 5), PyStr ''info''],
           Run_download (''https://open.spotify.com/track/1'', ''Music/{title}.{output-ext}'', None),
           Emit update_signal [PyMsg (Exception_text (DownloaderError ''connection reset'')), PyStr ''error''],
           Sleep 30,
           Emit update_signal [PyMsg (Attempt 2 5), PyStr ''info''],
           Run_download (''https://open.spotify.com/track/1'', ''Music/{title}.{output-ext}'', None),
           Emit update_signal [PyMsg (Exception_text (DownloaderError ''connection reset'')), PyStr ''error''],
           Sleep 30,
           Emit update_signal [PyMsg (Attempt 3 5), PyStr ''info''],
           Run_download (''https://open.spotify.com/track/1'', ''Music/{title}.{output-ext}'', None),
           Emit update_signal [PyMsg (Exception_text (DownloaderError ''connection reset'')), PyStr ''error''],
           Sleep 30,
           Emit update_signal [PyMsg (Attempt 4 5), PyStr ''info''],
           Run_download (''https://open.spotify.com/track/1'', ''Music/{title}.{output-ext}'', None),
           Emit update_signal [PyMsg (Exception_text (DownloaderError ''connection reset'')), PyStr ''error''],
           Sleep 30,
           Emit update_signal [PyMsg (Attempt 5 5), PyStr ''info''],
           Run_download (''https://open.spotify.com/track/1'', ''Music/{title}.{output-ext}'', None),
           Emit update_signal [PyMsg (Exception_text (DownloaderError ''connection reset'')), PyStr ''error''],
           Emit finished_signal [PyInt 0, PyInt 1]],
        success_count = 0\<rparr>"
  by (simp add: gui_downloader_batch_defs string_defs effect_defs upt_1_6 Path_div_def path_parts_def path_root_def)

section \<open>The single download\<close>

text \<open>
  The single download of \<^verbatim>\<open>gui_test.py\<close> with one of the types its caller passes: one
  invocation; an exception of the downloader, a result without returncode and the
  returncodes 0, 100 and 101 each end in one \<^verbatim>\<open>finished_signal\<close>.
\<close>

lemma gui_test_single_one_invocation:
  assumes "download_type = ''track_album'' \<or> download_type = ''playlist'' \<or> download_type = ''search''"
  shows "length (invocations (trace (final (gui_test_DownloadThread_run dl url download_type dir bit_rate fmt)))) = 1"
    and "\<not> crashed (gui_test_DownloadThread_run dl url download_type dir bit_rate fmt)"
  using assms
  by (elim disjE; simp add: single_defs effect_defs Let_def split: response.splits)+

lemma gui_test_single_exception:
  assumes "download_type = ''track_album'' \<or> download_type = ''playlist'' \<or> download_type = ''search''"
  shows "\<exists>c. gui_test_DownloadThread_run (\<lambda>h c. Raises m) url download_type dir bit_rate fmt =
     Return ()
       \<lparr>trace =
          [Configure bit_rate fmt dir,
           Emit update_signal [PyMsg (Starting url)],
           Run_download c,
           Emit update_signal [PyMsg (Exception_text (DownloaderError m))],
           Emit finished_signal [PyBool False, PyMsg (Str_of (DownloaderError m))]],
        success_count = 0\<rparr>"
  using assms
  by (elim disjE; simp add: single_defs effect_defs Let_def)

lemma gui_test_single_reported:
  assumes "download_type = ''track_album'' \<or> download_type = ''playlist'' \<or> download_type = ''search''"
    and "r = NoReturncode \<or> r = Returncode 0 \<or> r = Returncode 100 \<or> r = Returncode 101"
  shows "length (filter is_finished (trace (final (gui_test_DownloadThread_run (\<lambda>h c. r) url download_type dir bit_rate fmt)))) = 1"
  using assms
  by (elim disjE; simp add: single_defs effect_defs Let_def)

lemma gui_test_single_silent:
  assumes "download_type = ''track_album'' \<or> download_type = ''playlist'' \<or> download_type = ''search''"
    and "rc \<noteq> 0" and "rc \<noteq> 100" and "rc \<noteq> 101"
  shows "filter is_finished (trace (final (gui_test_DownloadThread_run (\<lambda>h c. Returncode rc) url download_type dir bit_rate fmt))) = []"
  using assms
  by (elim disjE; simp add: single_defs effect_defs Let_def)

text \<open>
  Claim C9. The downloader returns a result whose returncode is 1. In both files the
  chain over the returncode has no final \<^verbatim>\<open>else\<close>: nothing is emitted after the
  invocation, so the caller gets no \<^verbatim>\<open>finished_signal\<close>.
\<close>

theorem C9_no_result_for_other_returncode:
  "gui_test_DownloadThread_run (\<lambda>h c. Returncode 1) ''https://open.spotify.com/track/1'' ''track_album'' dir bit_rate fmt =
     Return ()
       \<lparr>trace =
          [Configure bit_rate fmt dir,
           Emit update_signal [PyMsg (Starting ''https://open.spotify.com/track/1'')],
           Run_download (''https://open.spotify.com/track/1'', Path_div dir ''{artist} - {title}.{output-ext}'', None)],
        success_count = 0\<rparr>
   \<and> gui_downloader_DownloadThread_run (\<lambda>h c. Returncode 1) ''https://open.spotify.com/track/1'' ''track'' dir bit_rate fmt =
     Return ()
       \<lparr>trace =
          [Configure bit_rate fmt dir,
           Emit update_signal [PyMsg (Starting ''https://open.spotify.com/track/1'')],
           Run_download (''https://open.spotify.com/track/1'', Path_div dir ''{title}.{output-ext}'', None)],
        success_count = 0\<rparr>"
  by (simp add: single_defs string_defs effect_defs)

section \<open>Lines that are never attempted\<close>

text \<open>
  Claim C10, \<^verbatim>\<open>gui_downloader.py\<close>. A batch file with a playlist URL and a line that is
  no Spotify link: the run ends at line 156 while it classifies the first line. No
  download is attempted, neither for the playlist nor for the second line.
\<close>

theorem C10_gui_downloader_lines_not_attempted:
  "gui_downloader_BatchDownloadThread_run dl st
     (Inr [''https://open.spotify.com/playlist/37i9dQZF1DXcBWIGoYBM5M\<newline>'', ''Bohemian Rhapsody Queen\<newline>'']) =
     Raise AttributeError
       \<lparr>trace = [Configure (bitrate st) (audio_format st) (output_dir st),
                  Emit progress_signal [PyInt 1, PyInt 2],
                  Emit update_signal
                    [PyMsg (Processing 1 2 ''https://open.spotify.com/playlist/37i9dQZF1DXcBWIGoYBM5M''), PyStr ''info'']],
        success_count = 0\<rparr>
   \<and> invocations (trace (final (gui_downloader_BatchDownloadThread_run dl st
     (Inr [''https://open.spotify.com/playlist/37i9dQZF1DXcBWIGoYBM5M\<newline>'', ''Bohemian Rhapsody Queen\<newline>''])))) = []"
  by (simp add: gui_downloader_batch_defs string_defs effect_defs)

end
